theory Spec2Isabelle
  imports Main
begin

section \<open>The fire-alarm robot controller (robot.py)\<close>

text \<open>
  The controller is a class \<open>Robot\<close> with one mutable field, \<open>current_state\<close>, and a set of
  devices (two drive motors behind a drive base, a fan motor, a colour and light sensor, a
  touch sensor, an ultrasonic side sensor, the hub with its light and speaker). Every method
  talks to the devices and may assign \<open>current_state\<close>.

  The embedding threads a record \<open>robot\<close> through every method. It carries the field
  \<open>current_state\<close>, the chronological log \<open>trace\<close> of everything the controller did to the
  outside (sensor reads with the value read, drive, fan, light and speaker commands, printed
  lines), and for each sensor the number of readings taken so far. The outside world is a
  record \<open>world\<close> giving, for each sensor, the value its n-th reading returns: whatever the
  physical run is, the values the sensors returned in it form such a record, so a statement
  for all worlds is a statement for all runs. Device failures (exceptions raised by the
  drivers) are outside the model.

  Numbers (distances, angles, light levels, speeds) range over an arbitrary linearly ordered
  ring \<open>'n\<close>: the integers that the pybricks sensors return, or exact rationals and reals
  for configured constants. Rounding of floating-point numbers is not modelled.
\<close>

subsection \<open>State constants\<close>

definition WANDER :: int where "WANDER = 1"
definition WALL_FOLLOWING :: int where "WALL_FOLLOWING = 2"
definition FIRE_DETECTION :: int where "FIRE_DETECTION = 3"
definition EXTINGUISH :: int where "EXTINGUISH = 4"
definition COMPLETE :: int where "COMPLETE = 5"

subsection \<open>Devices, configuration and the robot\<close>

text \<open>The values of \<open>pybricks.parameters.Color\<close>.\<close>

datatype color = RED | ORANGE | YELLOW | GREEN | CYAN | BLUE | VIOLET | MAGENTA
  | WHITE | GRAY | BLACK | NONE

text \<open>
  The module \<open>constants\<close> is imported by robot.py and is not part of the sources at hand:
  its values are parameters of every definition below.
\<close>

record 'n constants =
  WHEEL_DIAMETER :: 'n
  AXLE_TRACK :: 'n
  WALL_FOLLOW_MIN_DISTANCE :: 'n
  WALL_FOLLOW_STEP :: 'n
  WALL_FOLLOW_ADJUST_ANGLE :: 'n
  WANDER_DISTANCE :: 'n
  APPROACH_FLAME_STEP_DISTANCE :: 'n
  FLAME_DETECTION_THRESHOLD :: 'n
  GOAL_COLOR :: color
  FAN_SPEED :: 'n
  FAN_RUN_TIME :: 'n
  ALARM_FREQUENCY :: 'n
  ALARM_DURATION :: 'n

text \<open>
  One entry of the log: a sensor read together with the value it returned, a command to an
  actuator, or a printed line (\<open>PrintWith t v\<close> is the f-string made of the text \<open>t\<close>
  followed by the state number \<open>v\<close>).
\<close>

datatype 'n event =
    Touched bool
  | Distance 'n
  | Ambient 'n
  | ColorRead color
  | UseGyro bool
  | Stop
  | Straight 'n
  | Turn 'n
  | RunTime 'n 'n
  | LightOn color
  | Beep 'n 'n
  | Print string
  | PrintWith string int

record 'n world =
  touch_feed :: "nat \<Rightarrow> bool"
  side_feed :: "nat \<Rightarrow> 'n"
  ambient_feed :: "nat \<Rightarrow> 'n"
  color_feed :: "nat \<Rightarrow> color"

record 'n robot =
  current_state :: int
  trace :: "'n event list"
  touch_reads :: nat
  side_reads :: nat
  ambient_reads :: nat
  color_reads :: nat

definition emit :: "'n event \<Rightarrow> 'n robot \<Rightarrow> 'n robot" where
  "emit e s = s\<lparr>trace := trace s @ [e]\<rparr>"

text \<open>\<open>__init__\<close>: the drive base is told to use the gyro, the state starts at \<open>WANDER\<close>.\<close>

definition init :: "'n robot" where
  "init = \<lparr>current_state = WANDER, trace = [UseGyro True],
     touch_reads = 0, side_reads = 0, ambient_reads = 0, color_reads = 0\<rparr>"

subsection \<open>Sensor reads\<close>

text \<open>
  \<open>touch_sensor.touched()\<close>, \<open>side_sensor.distance()\<close>, \<open>color_distance_sensor.ambient()\<close>
  and \<open>color_distance_sensor.color()\<close>: each returns the next value of its feed and
  leaves a log entry.
\<close>

definition touched :: "'n world \<Rightarrow> 'n robot \<Rightarrow> bool \<times> 'n robot" where
  "touched w s =
     (let b = touch_feed w (touch_reads s)
      in (b, emit (Touched b) (s\<lparr>touch_reads := Suc (touch_reads s)\<rparr>)))"

definition distance :: "'n world \<Rightarrow> 'n robot \<Rightarrow> 'n \<times> 'n robot" where
  "distance w s =
     (let d = side_feed w (side_reads s)
      in (d, emit (Distance d) (s\<lparr>side_reads := Suc (side_reads s)\<rparr>)))"

definition ambient :: "'n world \<Rightarrow> 'n robot \<Rightarrow> 'n \<times> 'n robot" where
  "ambient w s =
     (let a = ambient_feed w (ambient_reads s)
      in (a, emit (Ambient a) (s\<lparr>ambient_reads := Suc (ambient_reads s)\<rparr>)))"

definition color :: "'n world \<Rightarrow> 'n robot \<Rightarrow> color \<times> 'n robot" where
  "color w s =
     (let k = color_feed w (color_reads s)
      in (k, emit (ColorRead k) (s\<lparr>color_reads := Suc (color_reads s)\<rparr>)))"

subsection \<open>Detection predicates\<close>

definition detect_obstacle :: "'n world \<Rightarrow> 'n robot \<Rightarrow> bool \<times> 'n robot" where
  "detect_obstacle w s =
     (case touched w s of
        (b, s1) \<Rightarrow> if b then (True, emit Stop s1) else (False, s1))"

definition detect_wall_on_right ::
  "('n::linordered_idom) constants \<Rightarrow> 'n world \<Rightarrow> 'n robot \<Rightarrow> bool \<times> 'n robot" where
  "detect_wall_on_right c w s =
     (case distance w s of (d, s1) \<Rightarrow> (d < WALL_FOLLOW_MIN_DISTANCE c, s1))"

definition detect_flame ::
  "('n::linordered_idom) constants \<Rightarrow> 'n world \<Rightarrow> 'n robot \<Rightarrow> bool \<times> 'n robot" where
  "detect_flame c w s =
     (case ambient w s of (a, s1) \<Rightarrow> (a > FLAME_DETECTION_THRESHOLD c, s1))"

definition detect_goal :: "'n constants \<Rightarrow> 'n world \<Rightarrow> 'n robot \<Rightarrow> bool \<times> 'n robot" where
  "detect_goal c w s =
     (case color w s of (k, s1) \<Rightarrow> (k = GOAL_COLOR c, s1))"

subsection \<open>Behaviours\<close>

definition transition_to :: "int \<Rightarrow> 'n robot \<Rightarrow> 'n robot" where
  "transition_to new_state s =
     emit (PrintWith ''Transitioning to '' new_state) (s\<lparr>current_state := new_state\<rparr>)"

text \<open>The \<open>for _ in range(8)\<close> loop of \<open>initial_scan_for_flame\<close>, by the rounds left.\<close>

fun scan_loop ::
  "('n::linordered_idom) constants \<Rightarrow> 'n world \<Rightarrow> nat \<Rightarrow> 'n robot \<Rightarrow> bool \<times> 'n robot" where
  "scan_loop c w 0 s = (False, s)"
| "scan_loop c w (Suc n) s =
     (case detect_flame c w s of
        (f, s1) \<Rightarrow>
          if f then (True, emit (Print ''Flame detected during initial scan'') s1)
          else scan_loop c w n (emit (Turn 45) s1))"

definition initial_scan_for_flame ::
  "('n::linordered_idom) constants \<Rightarrow> 'n world \<Rightarrow> 'n robot \<Rightarrow> bool \<times> 'n robot" where
  "initial_scan_for_flame c w s = scan_loop c w 8 s"

definition extinguish :: "'n constants \<Rightarrow> 'n robot \<Rightarrow> 'n robot" where
  "extinguish c s =
     (let s1 = emit (Print ''Extinguishing fire...'') s;
          s2 = emit (RunTime (FAN_SPEED c) (FAN_RUN_TIME c)) s1;
          s3 = s2\<lparr>current_state := COMPLETE\<rparr>;
          s4 = emit (Print ''Cooling down after extinguishing fire.'') s3
      in emit (LightOn GREEN) s4)"

text \<open>
  The \<open>while not self.detect_goal()\<close> loop of \<open>approach_flame\<close>. It ends only when the goal
  colour is read, so it is a partial function: \<open>None\<close> stands for a loop that never ends.
\<close>

partial_function (option) approach_loop ::
  "('n::linordered_idom) constants \<Rightarrow> 'n world \<Rightarrow> 'n robot \<Rightarrow> 'n robot option" where
  "approach_loop c w s =
     (case detect_goal c w s of
        (goal, s1) \<Rightarrow>
          if goal then Some s1
          else
            (case touched w s1 of
               (hit, s2) \<Rightarrow>
                 if hit then
                   approach_loop c w
                     (emit (Turn (- 90)) (emit (Straight (- WALL_FOLLOW_STEP c)) s2))
                 else
                   approach_loop c w (emit (Straight (APPROACH_FLAME_STEP_DISTANCE c)) s2)))"

declare approach_loop.simps [code]

text \<open>\<open>approach_flame\<close>: the loop, then \<open>extinguish\<close>.\<close>

definition approach_flame ::
  "('n::linordered_idom) constants \<Rightarrow> 'n world \<Rightarrow> 'n robot \<Rightarrow> 'n robot option" where
  "approach_flame c w s = map_option (extinguish c) (approach_loop c w s)"

definition wander ::
  "('n::linordered_idom) constants \<Rightarrow> 'n world \<Rightarrow> 'n robot \<Rightarrow> 'n robot" where
  "wander c w s =
     (case detect_obstacle w s of
        (hit, s1) \<Rightarrow>
          if hit then
            transition_to WALL_FOLLOWING
              (emit (Turn (- 90)) (emit (Straight (- WALL_FOLLOW_STEP c)) s1))
          else emit (Straight (WANDER_DISTANCE c)) s1)"

definition wall_following ::
  "('n::linordered_idom) constants \<Rightarrow> 'n world \<Rightarrow> 'n robot \<Rightarrow> 'n robot" where
  "wall_following c w s =
     (case detect_obstacle w s of
        (hit, s1) \<Rightarrow>
          if hit then emit (Turn (- 90)) (emit (Straight (- WALL_FOLLOW_STEP c)) s1)
          else
            (case detect_wall_on_right c w s1 of
               (wall, s2) \<Rightarrow>
                 if \<not> wall then emit (Turn (- 90)) s2
                 else
                   (case distance w s2 of
                      (d, s3) \<Rightarrow>
                        let distance_error = WALL_FOLLOW_MIN_DISTANCE c - d;
                            angle_adjustment = distance_error * WALL_FOLLOW_ADJUST_ANGLE c
                        in emit (Straight (WALL_FOLLOW_STEP c)) (emit (Turn angle_adjustment) s3))))"

definition fire_detection ::
  "('n::linordered_idom) constants \<Rightarrow> 'n world \<Rightarrow> 'n robot \<Rightarrow> 'n robot" where
  "fire_detection c w s = snd (initial_scan_for_flame c w s)"

definition raise_alarm :: "'n constants \<Rightarrow> 'n robot \<Rightarrow> 'n robot" where
  "raise_alarm c s =
     emit (Beep (ALARM_FREQUENCY c) (ALARM_DURATION c)) (emit (Print ''Alarm raised!'') s)"

subsection \<open>The dispatch step\<close>

definition update ::
  "('n::linordered_idom) constants \<Rightarrow> 'n world \<Rightarrow> 'n robot \<Rightarrow> 'n robot option" where
  "update c w s =
     (let s0 = emit (PrintWith ''Current State: '' (current_state s)) s in
      if current_state s0 = WANDER then
        (case initial_scan_for_flame c w s0 of
           (found, s1) \<Rightarrow>
             if \<not> found then
               Some (wander c w
                 (emit (Print ''No flame detected during initial scan. Wandering...'') s1))
             else Some (transition_to FIRE_DETECTION s1))
      else if current_state s0 = WALL_FOLLOWING then
        (case detect_goal c w (wall_following c w s0) of
           (goal, s2) \<Rightarrow> if goal then Some (transition_to FIRE_DETECTION s2) else Some s2)
      else if current_state s0 = FIRE_DETECTION then
        map_option (transition_to EXTINGUISH) (approach_flame c w s0)
      else if current_state s0 = EXTINGUISH then
        Some (transition_to WANDER
          (emit (Print ''Cooldown period before returning to wander.'') (extinguish c s0)))
      else Some s0)"

text \<open>The control loop: \<open>n\<close> calls of \<open>update\<close> in a row.\<close>

fun run ::
  "('n::linordered_idom) constants \<Rightarrow> 'n world \<Rightarrow> nat \<Rightarrow> 'n robot \<Rightarrow> 'n robot option" where
  "run c w 0 s = Some s"
| "run c w (Suc n) s = (case update c w s of None \<Rightarrow> None | Some s' \<Rightarrow> run c w n s')"

text \<open>The states for which \<open>update\<close> has a branch.\<close>

definition live_states :: "int set" where
  "live_states = {WANDER, WALL_FOLLOWING, FIRE_DETECTION, EXTINGUISH}"

subsection \<open>Observing the log\<close>

text \<open>
  What a method did is the part of the log it appended: \<open>issued s s'\<close> for a method
  taking the robot from \<open>s\<close> to \<open>s'\<close>. \<open>turn_angles\<close> and \<open>straight_distances\<close> list the
  arguments of the \<open>turn\<close> and \<open>straight\<close> commands of a log, in order. \<open>sweep w r k\<close> is the
  log of \<open>k\<close> rounds of the scan in which no flame is seen, from reading number \<open>r\<close> of
  the light sensor on: a reading, then a turn of 45 degrees.
\<close>

definition issued :: "'n robot \<Rightarrow> 'n robot \<Rightarrow> 'n event list" where
  "issued s s' = drop (length (trace s)) (trace s')"

fun turn_angles :: "'n event list \<Rightarrow> 'n list" where
  "turn_angles [] = []"
| "turn_angles (Turn a # es) = a # turn_angles es"
| "turn_angles (e # es) = turn_angles es"

fun straight_distances :: "'n event list \<Rightarrow> 'n list" where
  "straight_distances [] = []"
| "straight_distances (Straight d # es) = d # straight_distances es"
| "straight_distances (e # es) = straight_distances es"

definition sweep :: "'n::linordered_idom world \<Rightarrow> nat \<Rightarrow> nat \<Rightarrow> 'n event list" where
  "sweep w r k = concat (map (\<lambda>j. [Ambient (ambient_feed w (r + j)), Turn 45]) [0..<k])"

subsection \<open>A sample configuration and sample worlds\<close>

text \<open>
  Concrete values on which the theorems below are instantiated: a configuration with a
  positive steering gain and red as the goal colour, a robot in a given state that has
  read no sensor yet, and worlds built from four feeds (touch, side distance, ambient
  light, colour).
\<close>

definition sample_constants :: "int constants" where
  "sample_constants =
     \<lparr>WHEEL_DIAMETER = 56, AXLE_TRACK = 112, WALL_FOLLOW_MIN_DISTANCE = 150,
      WALL_FOLLOW_STEP = 50, WALL_FOLLOW_ADJUST_ANGLE = 2, WANDER_DISTANCE = 100,
      APPROACH_FLAME_STEP_DISTANCE = 30, FLAME_DETECTION_THRESHOLD = 50, GOAL_COLOR = RED,
      FAN_SPEED = 1000, FAN_RUN_TIME = 5000, ALARM_FREQUENCY = 440, ALARM_DURATION = 500\<rparr>"

definition sample_world ::
  "(nat \<Rightarrow> bool) \<Rightarrow> (nat \<Rightarrow> int) \<Rightarrow> (nat \<Rightarrow> int) \<Rightarrow> (nat \<Rightarrow> color) \<Rightarrow> int world" where
  "sample_world t d a k = \<lparr>touch_feed = t, side_feed = d, ambient_feed = a, color_feed = k\<rparr>"

definition in_state :: "int \<Rightarrow> int robot" where
  "in_state st = init\<lparr>current_state := st\<rparr>"

text \<open>No contact, dim light but for every third reading (readings 2, 5, 8, ...).\<close>

definition flame_at_third :: "int world" where
  "flame_at_third =
     sample_world (\<lambda>n. False) (\<lambda>n. 0) (\<lambda>n. if n mod 3 = 2 then 90 else 10) (\<lambda>n. NONE)"

text \<open>No contact and dim light throughout.\<close>

definition no_flame :: "int world" where
  "no_flame = sample_world (\<lambda>n. False) (\<lambda>n. 0) (\<lambda>n. 10) (\<lambda>n. NONE)"

text \<open>Contact at every reading of the touch sensor, dim light.\<close>

definition wall_ahead :: "int world" where
  "wall_ahead = sample_world (\<lambda>n. True) (\<lambda>n. 0) (\<lambda>n. 10) (\<lambda>n. NONE)"

text \<open>A wall on the right at 120 mm, then at 100 mm (80 mm) at the second reading.\<close>

definition wall_near :: "int world" where
  "wall_near = sample_world (\<lambda>n. False) (\<lambda>n. if n = 0 then 120 else 100) (\<lambda>n. 10) (\<lambda>n. NONE)"

definition wall_nearer :: "int world" where
  "wall_nearer = sample_world (\<lambda>n. False) (\<lambda>n. if n = 0 then 120 else 80) (\<lambda>n. 10) (\<lambda>n. NONE)"

text \<open>Nothing on the right within the minimum distance, no goal colour underneath.\<close>

definition wall_lost :: "int world" where
  "wall_lost = sample_world (\<lambda>n. False) (\<lambda>n. 2000) (\<lambda>n. 10) (\<lambda>n. WHITE)"

text \<open>The goal colour at every colour reading.\<close>

definition on_goal :: "int world" where
  "on_goal = sample_world (\<lambda>n. True) (\<lambda>n. 0) (\<lambda>n. 10) (\<lambda>n. RED)"

text \<open>
  A whole mission: the flame shows at the third light reading, the second touch reading
  reports contact, the fourth colour reading is the goal colour.
\<close>

definition fire_behind_wall :: "int world" where
  "fire_behind_wall =
     sample_world (\<lambda>n. n = 1) (\<lambda>n. 100) (\<lambda>n. if n = 2 then 90 else 10)
       (\<lambda>n. if n = 3 then RED else WHITE)"

text \<open>A wall on the right at 120 mm that is out of reach (200 mm) at the second reading.\<close>

definition wall_receding :: "int world" where
  "wall_receding = sample_world (\<lambda>n. False) (\<lambda>n. if n = 0 then 120 else 200) (\<lambda>n. 10) (\<lambda>n. NONE)"

text \<open>The sample configuration with a steering gain of zero.\<close>

definition flat_constants :: "int constants" where
  "flat_constants = sample_constants\<lparr>WALL_FOLLOW_ADJUST_ANGLE := 0\<rparr>"

section \<open>Unfolding rules\<close>

lemmas state_defs = WANDER_def WALL_FOLLOWING_def FIRE_DETECTION_def EXTINGUISH_def COMPLETE_def
lemmas device_defs = emit_def touched_def distance_def ambient_def color_def
lemmas detect_defs = detect_obstacle_def detect_wall_on_right_def detect_flame_def detect_goal_def
lemmas sample_defs = sample_constants_def sample_world_def in_state_def init_def
lemmas world_defs = flame_at_third_def no_flame_def wall_ahead_def wall_near_def wall_nearer_def
  on_goal_def fire_behind_wall_def wall_lost_def wall_receding_def flat_constants_def

section \<open>The flame scan\<close>

lemma sweep_0: "sweep w r 0 = []"
  by (simp add: sweep_def)

lemma sweep_Suc: "sweep w r (Suc k) = Ambient (ambient_feed w r) # Turn 45 # sweep w (Suc r) k"
  by (simp add: sweep_def map_upt_Suc del: upt_Suc)

lemma turn_angles_sweep: "turn_angles (sweep w r k) = replicate k 45"
  by (induction k arbitrary: r) (simp_all add: sweep_0 sweep_Suc)

lemma straight_distances_sweep: "straight_distances (sweep w r k) = []"
  by (induction k arbitrary: r) (simp_all add: sweep_0 sweep_Suc)

lemma sweep_cong:
  "\<forall>j<k. ambient_feed w (r + j) = ambient_feed v (q + j) \<Longrightarrow> sweep w r k = sweep v q k"
  unfolding sweep_def by (rule arg_cong [where f = concat]) simp

lemma scan_loop_none:
  "\<forall>j<n. ambient_feed w (ambient_reads s + j) \<le> FLAME_DETECTION_THRESHOLD c \<Longrightarrow>
   scan_loop c w n s =
     (False, s\<lparr>trace := trace s @ sweep w (ambient_reads s) n,
               ambient_reads := ambient_reads s + n\<rparr>)"
proof (induction n arbitrary: s)
  case 0
  then show ?case by (simp add: sweep_0)
next
  case (Suc n)
  let ?s' = "emit (Turn 45) (snd (detect_flame c w s))"
  from Suc.prems have now: "ambient_feed w (ambient_reads s) \<le> FLAME_DETECTION_THRESHOLD c"
    by (metis add.right_neutral zero_less_Suc)
  have reads: "ambient_reads ?s' = Suc (ambient_reads s)"
    by (simp add: detect_flame_def device_defs Let_def)
  have "\<forall>j<n. ambient_feed w (ambient_reads ?s' + j) \<le> FLAME_DETECTION_THRESHOLD c"
    using Suc.prems reads by (metis Suc_less_eq add_Suc_shift)
  from Suc.IH [OF this] now show ?case
    by (simp add: detect_flame_def device_defs Let_def sweep_Suc not_less [symmetric])
qed

lemma scan_loop_found:
  "k < n \<Longrightarrow>
   \<forall>j<k. ambient_feed w (ambient_reads s + j) \<le> FLAME_DETECTION_THRESHOLD c \<Longrightarrow>
   FLAME_DETECTION_THRESHOLD c < ambient_feed w (ambient_reads s + k) \<Longrightarrow>
   scan_loop c w n s =
     (True, s\<lparr>trace := trace s @ sweep w (ambient_reads s) k @
                  [Ambient (ambient_feed w (ambient_reads s + k)),
                   Print ''Flame detected during initial scan''],
              ambient_reads := Suc (ambient_reads s + k)\<rparr>)"
proof (induction n arbitrary: s k)
  case 0
  then show ?case by simp
next
  case (Suc n)
  show ?case
  proof (cases k)
    case 0
    with Suc.prems show ?thesis
      by (simp add: detect_flame_def device_defs Let_def sweep_0)
  next
    case (Suc k')
    let ?s' = "emit (Turn 45) (snd (detect_flame c w s))"
    have reads: "ambient_reads ?s' = Suc (ambient_reads s)"
      by (simp add: detect_flame_def device_defs Let_def)
    from Suc.prems(2) Suc have now: "ambient_feed w (ambient_reads s) \<le> FLAME_DETECTION_THRESHOLD c"
      by (metis add.right_neutral zero_less_Suc)
    have a: "k' < n" using Suc.prems(1) Suc by simp
    have b: "\<forall>j<k'. ambient_feed w (ambient_reads ?s' + j) \<le> FLAME_DETECTION_THRESHOLD c"
      using Suc.prems(2) Suc reads by (metis Suc_less_eq add_Suc_shift)
    have d: "FLAME_DETECTION_THRESHOLD c < ambient_feed w (ambient_reads ?s' + k')"
      using Suc.prems(3) Suc reads by simp
    from Suc.IH [OF a b d] now Suc show ?thesis
      by (simp add: detect_flame_def device_defs Let_def sweep_Suc not_less [symmetric])
  qed
qed

lemma turn_angles_append: "turn_angles (xs @ ys) = turn_angles xs @ turn_angles ys"
  by (induction xs rule: turn_angles.induct) simp_all

lemma straight_distances_append:
  "straight_distances (xs @ ys) = straight_distances xs @ straight_distances ys"
  by (induction xs rule: straight_distances.induct) simp_all

lemma first_failure:
  assumes "\<not> (\<forall>j<n. P j)"
  shows "\<exists>k<n. (\<forall>j<k. P j) \<and> \<not> P (k::nat)"
proof -
  from assms have "\<exists>k. k < n \<and> \<not> P k" by blast
  then obtain k where k: "k < n \<and> \<not> P k" and least: "\<forall>m<k. \<not> (m < n \<and> \<not> P m)"
    unfolding exists_least_iff [of "\<lambda>k. k < n \<and> \<not> P k"] by blast
  from k least have "\<forall>j<k. P j" by (meson less_trans)
  with k show ?thesis by blast
qed

lemma scan_loop_outcome:
  fixes c :: "('n::linordered_idom) constants"
  shows "(\<exists>k<n. scan_loop c w n s =
            (True, s\<lparr>trace := trace s @ sweep w (ambient_reads s) k @
                        [Ambient (ambient_feed w (ambient_reads s + k)),
                         Print ''Flame detected during initial scan''],
                     ambient_reads := Suc (ambient_reads s + k)\<rparr>)) \<or>
         scan_loop c w n s =
            (False, s\<lparr>trace := trace s @ sweep w (ambient_reads s) n,
                      ambient_reads := ambient_reads s + n\<rparr>)"
proof (cases "\<forall>j<n. ambient_feed w (ambient_reads s + j) \<le> FLAME_DETECTION_THRESHOLD c")
  case True
  then show ?thesis by (simp add: scan_loop_none)
next
  case False
  from first_failure [OF this] obtain k where "k < n"
    and "\<forall>j<k. ambient_feed w (ambient_reads s + j) \<le> FLAME_DETECTION_THRESHOLD c"
    and "FLAME_DETECTION_THRESHOLD c < ambient_feed w (ambient_reads s + k)"
    by (auto simp: not_le)
  then show ?thesis using scan_loop_found [of k n w s c] by blast
qed

lemma scan_loop_turns:
  fixes c :: "('n::linordered_idom) constants"
  shows "\<exists>k\<le>n. turn_angles (issued s (snd (scan_loop c w n s))) = replicate k 45"
  using scan_loop_outcome [of n c w s]
proof
  assume "\<exists>k<n. scan_loop c w n s =
            (True, s\<lparr>trace := trace s @ sweep w (ambient_reads s) k @
                        [Ambient (ambient_feed w (ambient_reads s + k)),
                         Print ''Flame detected during initial scan''],
                     ambient_reads := Suc (ambient_reads s + k)\<rparr>)"
  then obtain k where "k < n" and
    "turn_angles (issued s (snd (scan_loop c w n s))) = replicate k 45"
    by (auto simp: issued_def turn_angles_append turn_angles_sweep)
  then show ?thesis by (meson less_imp_le)
next
  assume "scan_loop c w n s =
            (False, s\<lparr>trace := trace s @ sweep w (ambient_reads s) n,
                      ambient_reads := ambient_reads s + n\<rparr>)"
  then have "turn_angles (issued s (snd (scan_loop c w n s))) = replicate n 45"
    by (simp add: issued_def turn_angles_sweep)
  then show ?thesis by blast
qed

lemma scan_loop_restart:
  fixes c :: "('n::linordered_idom) constants"
  assumes same: "\<forall>j<n. ambient_feed w (ambient_reads s + j) = ambient_feed v (ambient_reads t + j)"
  shows "fst (scan_loop c w n s) = fst (scan_loop c v n t) \<and>
         issued s (snd (scan_loop c w n s)) = issued t (snd (scan_loop c v n t))"
proof (cases "\<forall>j<n. ambient_feed w (ambient_reads s + j) \<le> FLAME_DETECTION_THRESHOLD c")
  case True
  with same have "\<forall>j<n. ambient_feed v (ambient_reads t + j) \<le> FLAME_DETECTION_THRESHOLD c"
    by simp
  with True same show ?thesis
    by (simp add: scan_loop_none issued_def sweep_cong [of n w "ambient_reads s" v "ambient_reads t"])
next
  case False
  from first_failure [OF this] obtain k where k: "k < n"
    and below: "\<forall>j<k. ambient_feed w (ambient_reads s + j) \<le> FLAME_DETECTION_THRESHOLD c"
    and above: "FLAME_DETECTION_THRESHOLD c < ambient_feed w (ambient_reads s + k)"
    by (auto simp: not_le)
  from same k have same_k: "\<forall>j<k. ambient_feed w (ambient_reads s + j) = ambient_feed v (ambient_reads t + j)"
    by (meson less_trans)
  from same k have at_k: "ambient_feed w (ambient_reads s + k) = ambient_feed v (ambient_reads t + k)"
    by blast
  from below same_k have below': "\<forall>j<k. ambient_feed v (ambient_reads t + j) \<le> FLAME_DETECTION_THRESHOLD c"
    by simp
  from above at_k have above': "FLAME_DETECTION_THRESHOLD c < ambient_feed v (ambient_reads t + k)"
    by simp
  show ?thesis
    by (simp add: scan_loop_found [OF k below above] scan_loop_found [OF k below' above']
        issued_def at_k sweep_cong [OF same_k])
qed

text \<open>
  C2. \<open>initial_scan_for_flame\<close> reads the light sensor before every turn. When the first
  reading above the threshold is reading number \<open>k\<close> of the call (counted from 0, \<open>k < 8\<close>),
  it returns true after exactly \<open>k\<close> turns of 45 degrees and turns no further; when none of
  eight readings is above the threshold it returns false after eight turns of 45 degrees. In
  every case the turns it issues are at most eight, each of 45 degrees. Its result and the
  commands it issues depend on nothing but the next eight readings: called again, from any
  robot state, on the same readings it does the same.
\<close>

theorem initial_scan_for_flame_sweep:
  fixes c :: "('n::linordered_idom) constants"
  shows
  "(k < 8 \<and> (\<forall>j<k. ambient_feed w (ambient_reads s + j) \<le> FLAME_DETECTION_THRESHOLD c) \<and>
      FLAME_DETECTION_THRESHOLD c < ambient_feed w (ambient_reads s + k) \<longrightarrow>
    initial_scan_for_flame c w s =
      (True, s\<lparr>trace := trace s @ sweep w (ambient_reads s) k @
                  [Ambient (ambient_feed w (ambient_reads s + k)),
                   Print ''Flame detected during initial scan''],
               ambient_reads := Suc (ambient_reads s + k)\<rparr>)) \<and>
   ((\<forall>j<8. ambient_feed w (ambient_reads s + j) \<le> FLAME_DETECTION_THRESHOLD c) \<longrightarrow>
    initial_scan_for_flame c w s =
      (False, s\<lparr>trace := trace s @ sweep w (ambient_reads s) 8,
                ambient_reads := ambient_reads s + 8\<rparr>)) \<and>
   (\<exists>m\<le>8. turn_angles (issued s (snd (initial_scan_for_flame c w s))) = replicate m 45) \<and>
   ((\<forall>j<8. ambient_feed w (ambient_reads s + j) = ambient_feed v (ambient_reads t + j)) \<longrightarrow>
    fst (initial_scan_for_flame c w s) = fst (initial_scan_for_flame c v t) \<and>
    issued s (snd (initial_scan_for_flame c w s)) = issued t (snd (initial_scan_for_flame c v t)))"
  unfolding initial_scan_for_flame_def
  using scan_loop_found [of k 8 w s c] scan_loop_none [of 8 w s c] scan_loop_turns [of 8 s c w]
    scan_loop_restart [of 8 w s v t c]
  by blast

theorem initial_scan_for_flame_sweep_witness:
  "ambient_feed flame_at_third 0 \<le> FLAME_DETECTION_THRESHOLD sample_constants \<and>
   ambient_feed flame_at_third 1 \<le> FLAME_DETECTION_THRESHOLD sample_constants \<and>
   FLAME_DETECTION_THRESHOLD sample_constants < ambient_feed flame_at_third 2 \<and>
   initial_scan_for_flame sample_constants flame_at_third (in_state WANDER) =
     (True,
      \<lparr>current_state = WANDER,
       trace = [UseGyro True, Ambient 10, Turn 45, Ambient 10, Turn 45, Ambient 90,
                Print ''Flame detected during initial scan''],
       touch_reads = 0, side_reads = 0, ambient_reads = 3, color_reads = 0\<rparr>) \<and>
   initial_scan_for_flame sample_constants no_flame (in_state WANDER) =
     (False,
      \<lparr>current_state = WANDER,
       trace = [UseGyro True, Ambient 10, Turn 45, Ambient 10, Turn 45, Ambient 10, Turn 45,
                Ambient 10, Turn 45, Ambient 10, Turn 45, Ambient 10, Turn 45,
                Ambient 10, Turn 45, Ambient 10, Turn 45],
       touch_reads = 0, side_reads = 0, ambient_reads = 8, color_reads = 0\<rparr>) \<and>
   fst (initial_scan_for_flame sample_constants flame_at_third
         ((in_state WANDER)\<lparr>ambient_reads := 3\<rparr>)) \<and>
   issued ((in_state WANDER)\<lparr>ambient_reads := 3\<rparr>)
     (snd (initial_scan_for_flame sample_constants flame_at_third
            ((in_state WANDER)\<lparr>ambient_reads := 3\<rparr>))) =
     [Ambient 10, Turn 45, Ambient 10, Turn 45, Ambient 90,
      Print ''Flame detected during initial scan'']"
proof -
  let ?c = sample_constants
  let ?s = "in_state WANDER"
  let ?t = "(in_state WANDER)\<lparr>ambient_reads := 3\<rparr>"
  have r: "ambient_reads ?s = 0"
    by (simp add: sample_defs)
  have first: "ambient_feed flame_at_third 0 \<le> FLAME_DETECTION_THRESHOLD ?c"
    and second: "ambient_feed flame_at_third 1 \<le> FLAME_DETECTION_THRESHOLD ?c"
    and third: "FLAME_DETECTION_THRESHOLD ?c < ambient_feed flame_at_third 2"
    by (simp_all add: world_defs sample_defs)
  have early:
    "(2::nat) < 8 \<and>
     (\<forall>j<2. ambient_feed flame_at_third (ambient_reads ?s + j) \<le> FLAME_DETECTION_THRESHOLD ?c) \<and>
     FLAME_DETECTION_THRESHOLD ?c < ambient_feed flame_at_third (ambient_reads ?s + 2)"
    by (auto simp: world_defs sample_defs less_2_cases_iff)
  have never:
    "\<forall>j<8. ambient_feed no_flame (ambient_reads ?s + j) \<le> FLAME_DETECTION_THRESHOLD ?c"
    by (simp add: world_defs sample_defs)
  have again:
    "\<forall>j<8. ambient_feed flame_at_third (ambient_reads ?s + j) =
            ambient_feed flame_at_third (ambient_reads ?t + j)"
    by (simp add: world_defs sample_defs)
  have sweep2: "sweep flame_at_third 0 2 = [Ambient 10, Turn 45, Ambient 10, Turn 45]"
    unfolding numeral_2_eq_2 by (simp add: sweep_Suc sweep_0 world_defs sample_defs)
  have sweep8:
    "sweep no_flame 0 8 =
       [Ambient 10, Turn 45, Ambient 10, Turn 45, Ambient 10, Turn 45, Ambient 10, Turn 45,
        Ambient 10, Turn 45, Ambient 10, Turn 45, Ambient 10, Turn 45, Ambient 10, Turn 45]"
    by (simp add: eval_nat_numeral sweep_Suc sweep_0 world_defs sample_defs)
  note facts = initial_scan_for_flame_sweep [where c = ?c and w = flame_at_third and s = ?s
      and k = 2 and v = flame_at_third and t = ?t]
  from facts early have found:
    "initial_scan_for_flame ?c flame_at_third ?s =
       (True, ?s\<lparr>trace := trace ?s @ sweep flame_at_third (ambient_reads ?s) 2 @
                   [Ambient (ambient_feed flame_at_third (ambient_reads ?s + 2)),
                    Print ''Flame detected during initial scan''],
                 ambient_reads := Suc (ambient_reads ?s + 2)\<rparr>)"
    by blast
  from facts again have same:
    "fst (initial_scan_for_flame ?c flame_at_third ?s) =
       fst (initial_scan_for_flame ?c flame_at_third ?t) \<and>
     issued ?s (snd (initial_scan_for_flame ?c flame_at_third ?s)) =
       issued ?t (snd (initial_scan_for_flame ?c flame_at_third ?t))"
    by blast
  from initial_scan_for_flame_sweep [where c = ?c and w = no_flame and s = ?s] never
  have lost:
    "initial_scan_for_flame ?c no_flame ?s =
       (False, ?s\<lparr>trace := trace ?s @ sweep no_flame (ambient_reads ?s) 8,
                  ambient_reads := ambient_reads ?s + 8\<rparr>)"
    by blast
  have found': "initial_scan_for_flame ?c flame_at_third ?s =
     (True,
      \<lparr>current_state = WANDER,
       trace = [UseGyro True, Ambient 10, Turn 45, Ambient 10, Turn 45, Ambient 90,
                Print ''Flame detected during initial scan''],
       touch_reads = 0, side_reads = 0, ambient_reads = 3, color_reads = 0\<rparr>)"
    unfolding found r by (simp add: sweep2) (simp add: world_defs sample_defs)
  have lost': "initial_scan_for_flame ?c no_flame ?s =
     (False,
      \<lparr>current_state = WANDER,
       trace = [UseGyro True, Ambient 10, Turn 45, Ambient 10, Turn 45, Ambient 10, Turn 45,
                Ambient 10, Turn 45, Ambient 10, Turn 45, Ambient 10, Turn 45,
                Ambient 10, Turn 45, Ambient 10, Turn 45],
       touch_reads = 0, side_reads = 0, ambient_reads = 8, color_reads = 0\<rparr>)"
    unfolding lost r by (simp add: sweep8) (simp add: sample_defs)
  from same found' have again':
    "fst (initial_scan_for_flame ?c flame_at_third ?t) \<and>
     issued ?t (snd (initial_scan_for_flame ?c flame_at_third ?t)) =
       [Ambient 10, Turn 45, Ambient 10, Turn 45, Ambient 90,
        Print ''Flame detected during initial scan'']"
    by (simp add: issued_def sample_defs)
  from first second third found' lost' again' show ?thesis by blast
qed

section \<open>The dispatch step in the states EXTINGUISH and COMPLETE\<close>

text \<open>
  C1. In state \<open>EXTINGUISH\<close> the step runs \<open>extinguish\<close> on the robot (after the line
  printing the current state): the fan is run at \<open>FAN_SPEED\<close> for \<open>FAN_RUN_TIME\<close> and the
  state is set to \<open>COMPLETE\<close>; then the step moves on to \<open>WANDER\<close>, the state in which it
  ends. The step always returns.
\<close>

theorem update_extinguish_then_wander:
  fixes c :: "('n::linordered_idom) constants"
  assumes "current_state s = EXTINGUISH"
  shows
  "update c w s =
     Some (transition_to WANDER
       (emit (Print ''Cooldown period before returning to wander.'')
         (extinguish c (emit (PrintWith ''Current State: '' EXTINGUISH) s)))) \<and>
   current_state (extinguish c (emit (PrintWith ''Current State: '' EXTINGUISH) s)) = COMPLETE \<and>
   issued s (extinguish c (emit (PrintWith ''Current State: '' EXTINGUISH) s)) =
     [PrintWith ''Current State: '' EXTINGUISH, Print ''Extinguishing fire...'',
      RunTime (FAN_SPEED c) (FAN_RUN_TIME c),
      Print ''Cooling down after extinguishing fire.'', LightOn GREEN] \<and>
   update c w s =
     Some (s\<lparr>current_state := WANDER,
             trace := trace s @
               [PrintWith ''Current State: '' EXTINGUISH, Print ''Extinguishing fire...'',
                RunTime (FAN_SPEED c) (FAN_RUN_TIME c),
                Print ''Cooling down after extinguishing fire.'', LightOn GREEN,
                Print ''Cooldown period before returning to wander.'',
                PrintWith ''Transitioning to '' WANDER]\<rparr>)"
  using assms
  by (simp add: update_def extinguish_def transition_to_def emit_def issued_def Let_def state_defs)

theorem update_extinguish_then_wander_witness:
  "current_state (in_state EXTINGUISH) = EXTINGUISH \<and>
   update sample_constants no_flame (in_state EXTINGUISH) =
     Some \<lparr>current_state = WANDER,
           trace = [UseGyro True, PrintWith ''Current State: '' 4, Print ''Extinguishing fire...'',
                    RunTime 1000 5000, Print ''Cooling down after extinguishing fire.'',
                    LightOn GREEN, Print ''Cooldown period before returning to wander.'',
                    PrintWith ''Transitioning to '' 1],
           touch_reads = 0, side_reads = 0, ambient_reads = 0, color_reads = 0\<rparr>"
proof -
  have st: "current_state (in_state EXTINGUISH) = EXTINGUISH"
    by (simp add: sample_defs)
  from update_extinguish_then_wander [OF st, of sample_constants no_flame]
  show ?thesis
    by (simp add: sample_defs state_defs transition_to_def extinguish_def emit_def Let_def)
qed

text \<open>
  C10. In state \<open>COMPLETE\<close> no branch of the step applies: the step returns, and all it
  does is print the line with the current state. No sensor is read (the counts of readings
  are unchanged), no command goes to a motor, the fan, the light or the speaker, and
  \<open>current_state\<close> stays \<open>COMPLETE\<close>.
\<close>

theorem update_complete_noop:
  fixes c :: "('n::linordered_idom) constants"
  assumes "current_state s = COMPLETE"
  shows "update c w s = Some (s\<lparr>trace := trace s @ [PrintWith ''Current State: '' COMPLETE]\<rparr>)"
  using assms by (simp add: update_def emit_def Let_def state_defs)

theorem update_complete_noop_witness:
  "current_state (in_state COMPLETE) = COMPLETE \<and>
   update sample_constants flame_at_third (in_state COMPLETE) =
     Some \<lparr>current_state = COMPLETE,
           trace = [UseGyro True, PrintWith ''Current State: '' 5],
           touch_reads = 0, side_reads = 0, ambient_reads = 0, color_reads = 0\<rparr>"
proof -
  have st: "current_state (in_state COMPLETE) = COMPLETE"
    by (simp add: sample_defs)
  from update_complete_noop [OF st, of sample_constants flame_at_third]
  show ?thesis
    by (simp add: sample_defs state_defs)
qed

section \<open>The dispatch step in the state WANDER\<close>

text \<open>
  C3. A step from \<open>WANDER\<close> on which the light sensor is at most the threshold at the
  first two readings of the scan and above it at the third: the step returns, exactly two
  turns are issued, each of 45 degrees, no \<open>straight\<close> command is issued (so \<open>wander\<close>
  does not drive), and the step ends in \<open>FIRE_DETECTION\<close>.
\<close>

theorem update_wander_flame_at_third_check:
  fixes c :: "('n::linordered_idom) constants"
  assumes "current_state s = WANDER"
    and "ambient_feed w (ambient_reads s) \<le> FLAME_DETECTION_THRESHOLD c"
    and "ambient_feed w (ambient_reads s + 1) \<le> FLAME_DETECTION_THRESHOLD c"
    and "FLAME_DETECTION_THRESHOLD c < ambient_feed w (ambient_reads s + 2)"
  shows
  "(let s' = s\<lparr>current_state := FIRE_DETECTION,
               trace := trace s @
                 [PrintWith ''Current State: '' WANDER,
                  Ambient (ambient_feed w (ambient_reads s)), Turn 45,
                  Ambient (ambient_feed w (ambient_reads s + 1)), Turn 45,
                  Ambient (ambient_feed w (ambient_reads s + 2)),
                  Print ''Flame detected during initial scan'',
                  PrintWith ''Transitioning to '' FIRE_DETECTION],
               ambient_reads := ambient_reads s + 3\<rparr>
    in update c w s = Some s' \<and>
       current_state s' = FIRE_DETECTION \<and>
       turn_angles (issued s s') = [45, 45] \<and>
       straight_distances (issued s s') = [])"
  using assms
  by (simp add: update_def initial_scan_for_flame_def eval_nat_numeral detect_flame_def
      device_defs transition_to_def issued_def Let_def not_less [symmetric])

theorem update_wander_flame_at_third_check_witness:
  "current_state (in_state WANDER) = WANDER \<and>
   ambient_feed flame_at_third 0 \<le> FLAME_DETECTION_THRESHOLD sample_constants \<and>
   ambient_feed flame_at_third 1 \<le> FLAME_DETECTION_THRESHOLD sample_constants \<and>
   FLAME_DETECTION_THRESHOLD sample_constants < ambient_feed flame_at_third 2 \<and>
   update sample_constants flame_at_third (in_state WANDER) =
     Some \<lparr>current_state = FIRE_DETECTION,
           trace = [UseGyro True, PrintWith ''Current State: '' 1, Ambient 10, Turn 45,
                    Ambient 10, Turn 45, Ambient 90,
                    Print ''Flame detected during initial scan'',
                    PrintWith ''Transitioning to '' 3],
           touch_reads = 0, side_reads = 0, ambient_reads = 3, color_reads = 0\<rparr>"
proof -
  let ?s = "in_state WANDER"
  have st: "current_state ?s = WANDER"
    by (simp add: sample_defs)
  have a0: "ambient_feed flame_at_third (ambient_reads ?s) \<le> FLAME_DETECTION_THRESHOLD sample_constants"
    and a1: "ambient_feed flame_at_third (ambient_reads ?s + 1) \<le> FLAME_DETECTION_THRESHOLD sample_constants"
    and a2: "FLAME_DETECTION_THRESHOLD sample_constants < ambient_feed flame_at_third (ambient_reads ?s + 2)"
    by (simp_all add: world_defs sample_defs)
  from update_wander_flame_at_third_check [OF st a0 a1 a2]
  show ?thesis
    by (simp add: Let_def) (simp add: world_defs sample_defs state_defs)
qed

section \<open>Wandering and wall following\<close>

text \<open>
  C4. \<open>wander\<close> reads the touch sensor once. On contact it issues \<open>stop\<close>, a straight
  drive of minus \<open>WALL_FOLLOW_STEP\<close> and a turn of minus 90 degrees, in this order, and
  moves to \<open>WALL_FOLLOWING\<close>. Without contact it drives \<open>WANDER_DISTANCE\<close> straight and leaves
  \<open>current_state\<close> as it was.
\<close>

theorem wander_contact_or_free:
  fixes c :: "('n::linordered_idom) constants"
  shows
  "(touch_feed w (touch_reads s) \<longrightarrow>
      wander c w s =
        s\<lparr>current_state := WALL_FOLLOWING,
          trace := trace s @
            [Touched True, Stop, Straight (- WALL_FOLLOW_STEP c), Turn (- 90),
             PrintWith ''Transitioning to '' WALL_FOLLOWING],
          touch_reads := Suc (touch_reads s)\<rparr>) \<and>
   (\<not> touch_feed w (touch_reads s) \<longrightarrow>
      wander c w s =
        s\<lparr>trace := trace s @ [Touched False, Straight (WANDER_DISTANCE c)],
          touch_reads := Suc (touch_reads s)\<rparr> \<and>
      current_state (wander c w s) = current_state s)"
  by (simp add: wander_def detect_obstacle_def transition_to_def device_defs Let_def)

theorem wander_contact_or_free_witness:
  "touch_feed wall_ahead (touch_reads (in_state WANDER)) \<and>
   wander sample_constants wall_ahead (in_state WANDER) =
     \<lparr>current_state = WALL_FOLLOWING,
      trace = [UseGyro True, Touched True, Stop, Straight (- 50), Turn (- 90),
               PrintWith ''Transitioning to '' 2],
      touch_reads = 1, side_reads = 0, ambient_reads = 0, color_reads = 0\<rparr> \<and>
   \<not> touch_feed no_flame (touch_reads (in_state WANDER)) \<and>
   wander sample_constants no_flame (in_state WANDER) =
     \<lparr>current_state = WANDER,
      trace = [UseGyro True, Touched False, Straight 100],
      touch_reads = 1, side_reads = 0, ambient_reads = 0, color_reads = 0\<rparr>"
  using wander_contact_or_free [of wall_ahead "in_state WANDER" sample_constants]
    wander_contact_or_free [of no_flame "in_state WANDER" sample_constants]
  by (simp add: world_defs sample_defs state_defs)

text \<open>
  C5, as the code has it. \<open>wall_following\<close> without contact and with a wall on the right
  (the side reading taken by \<open>detect_wall_on_right\<close> is below \<open>WALL_FOLLOW_MIN_DISTANCE\<close>)
  reads the side sensor a second time and turns by
  \<open>(WALL_FOLLOW_MIN_DISTANCE - d) * WALL_FOLLOW_ADJUST_ANGLE\<close> for that second reading \<open>d\<close>,
  whatever \<open>d\<close> is, then drives \<open>WALL_FOLLOW_STEP\<close>. Of two such runs with second readings
  \<open>d1 < d2\<close>, the one reading \<open>d1\<close> turns by the strictly greater angle exactly when the
  gain \<open>WALL_FOLLOW_ADJUST_ANGLE\<close> is positive; the angles are equal exactly when the gain
  is zero, and in the opposite order exactly when it is negative.
\<close>

theorem wall_following_proportional:
  fixes c :: "('n::linordered_idom) constants"
  assumes "\<not> touch_feed w1 (touch_reads s1)"
    and "side_feed w1 (side_reads s1) < WALL_FOLLOW_MIN_DISTANCE c"
    and "\<not> touch_feed w2 (touch_reads s2)"
    and "side_feed w2 (side_reads s2) < WALL_FOLLOW_MIN_DISTANCE c"
  shows
  "wall_following c w1 s1 =
     s1\<lparr>trace := trace s1 @
           [Touched False, Distance (side_feed w1 (side_reads s1)),
            Distance (side_feed w1 (Suc (side_reads s1))),
            Turn ((WALL_FOLLOW_MIN_DISTANCE c - side_feed w1 (Suc (side_reads s1))) *
                  WALL_FOLLOW_ADJUST_ANGLE c),
            Straight (WALL_FOLLOW_STEP c)],
         touch_reads := Suc (touch_reads s1),
         side_reads := Suc (Suc (side_reads s1))\<rparr> \<and>
   turn_angles (issued s1 (wall_following c w1 s1)) =
     [(WALL_FOLLOW_MIN_DISTANCE c - side_feed w1 (Suc (side_reads s1))) *
      WALL_FOLLOW_ADJUST_ANGLE c] \<and>
   turn_angles (issued s2 (wall_following c w2 s2)) =
     [(WALL_FOLLOW_MIN_DISTANCE c - side_feed w2 (Suc (side_reads s2))) *
      WALL_FOLLOW_ADJUST_ANGLE c] \<and>
   (side_feed w1 (Suc (side_reads s1)) < side_feed w2 (Suc (side_reads s2)) \<longrightarrow>
      (hd (turn_angles (issued s2 (wall_following c w2 s2))) <
         hd (turn_angles (issued s1 (wall_following c w1 s1)))) =
        (0 < WALL_FOLLOW_ADJUST_ANGLE c) \<and>
      (hd (turn_angles (issued s2 (wall_following c w2 s2))) =
         hd (turn_angles (issued s1 (wall_following c w1 s1)))) =
        (WALL_FOLLOW_ADJUST_ANGLE c = 0) \<and>
      (hd (turn_angles (issued s1 (wall_following c w1 s1))) <
         hd (turn_angles (issued s2 (wall_following c w2 s2)))) =
        (WALL_FOLLOW_ADJUST_ANGLE c < 0))"
proof -
  let ?m = "WALL_FOLLOW_MIN_DISTANCE c"
  let ?g = "WALL_FOLLOW_ADJUST_ANGLE c"
  let ?d1 = "side_feed w1 (Suc (side_reads s1))"
  let ?d2 = "side_feed w2 (Suc (side_reads s2))"
  have run1: "wall_following c w1 s1 =
     s1\<lparr>trace := trace s1 @
           [Touched False, Distance (side_feed w1 (side_reads s1)), Distance ?d1,
            Turn ((?m - ?d1) * ?g), Straight (WALL_FOLLOW_STEP c)],
         touch_reads := Suc (touch_reads s1),
         side_reads := Suc (Suc (side_reads s1))\<rparr>"
    using assms(1,2)
    by (simp add: wall_following_def detect_obstacle_def detect_wall_on_right_def device_defs
        Let_def)
  have turn1: "turn_angles (issued s1 (wall_following c w1 s1)) = [(?m - ?d1) * ?g]"
    unfolding run1 by (simp add: issued_def)
  have turn2: "turn_angles (issued s2 (wall_following c w2 s2)) = [(?m - ?d2) * ?g]"
    using assms(3,4)
    by (simp add: wall_following_def detect_obstacle_def detect_wall_on_right_def device_defs
        issued_def Let_def)
  have order: "((?m - ?d2) * ?g < (?m - ?d1) * ?g) = (0 < ?g) \<and>
               ((?m - ?d2) * ?g = (?m - ?d1) * ?g) = (?g = 0) \<and>
               ((?m - ?d1) * ?g < (?m - ?d2) * ?g) = (?g < 0)" if "?d1 < ?d2"
  proof -
    from that have lt: "?m - ?d2 < ?m - ?d1" by simp
    then show ?thesis
      by (auto simp: mult_less_cancel_right)
  qed
  from run1 turn1 turn2 order show ?thesis by simp
qed

theorem wall_following_proportional_witness:
  "\<not> touch_feed wall_nearer 0 \<and> side_feed wall_nearer 0 < WALL_FOLLOW_MIN_DISTANCE sample_constants \<and>
   \<not> touch_feed wall_receding 0 \<and>
   side_feed wall_receding 0 < WALL_FOLLOW_MIN_DISTANCE sample_constants \<and>
   side_feed wall_nearer 1 = 80 \<and> side_feed wall_receding 1 = 200 \<and>
   0 < WALL_FOLLOW_ADJUST_ANGLE sample_constants \<and>
   wall_following sample_constants wall_nearer (in_state WALL_FOLLOWING) =
     \<lparr>current_state = WALL_FOLLOWING,
      trace = [UseGyro True, Touched False, Distance 120, Distance 80, Turn 140, Straight 50],
      touch_reads = 1, side_reads = 2, ambient_reads = 0, color_reads = 0\<rparr> \<and>
   turn_angles (issued (in_state WALL_FOLLOWING)
     (wall_following sample_constants wall_receding (in_state WALL_FOLLOWING))) = [- 100] \<and>
   hd (turn_angles (issued (in_state WALL_FOLLOWING)
        (wall_following sample_constants wall_receding (in_state WALL_FOLLOWING)))) <
   hd (turn_angles (issued (in_state WALL_FOLLOWING)
        (wall_following sample_constants wall_nearer (in_state WALL_FOLLOWING))))"
proof -
  let ?s = "in_state WALL_FOLLOWING"
  let ?c = sample_constants
  have h: "\<not> touch_feed wall_nearer (touch_reads ?s)"
    "side_feed wall_nearer (side_reads ?s) < WALL_FOLLOW_MIN_DISTANCE ?c"
    "\<not> touch_feed wall_receding (touch_reads ?s)"
    "side_feed wall_receding (side_reads ?s) < WALL_FOLLOW_MIN_DISTANCE ?c"
    by (simp_all add: world_defs sample_defs)
  have side: "\<not> touch_feed wall_nearer 0" "\<not> touch_feed wall_receding 0"
    "side_feed wall_nearer 0 < WALL_FOLLOW_MIN_DISTANCE ?c"
    "side_feed wall_receding 0 < WALL_FOLLOW_MIN_DISTANCE ?c"
    "side_feed wall_nearer 1 = 80" "side_feed wall_receding 1 = 200"
    "0 < WALL_FOLLOW_ADJUST_ANGLE ?c"
    by (simp_all add: world_defs sample_defs)
  note all = wall_following_proportional [OF h]
  from all have "wall_following ?c wall_nearer ?s =
     ?s\<lparr>trace := trace ?s @
           [Touched False, Distance (side_feed wall_nearer (side_reads ?s)),
            Distance (side_feed wall_nearer (Suc (side_reads ?s))),
            Turn ((WALL_FOLLOW_MIN_DISTANCE ?c - side_feed wall_nearer (Suc (side_reads ?s))) *
                  WALL_FOLLOW_ADJUST_ANGLE ?c),
            Straight (WALL_FOLLOW_STEP ?c)],
         touch_reads := Suc (touch_reads ?s),
         side_reads := Suc (Suc (side_reads ?s))\<rparr>"
    by (rule conjunct1)
  then have run: "wall_following ?c wall_nearer ?s =
     \<lparr>current_state = WALL_FOLLOWING,
      trace = [UseGyro True, Touched False, Distance 120, Distance 80, Turn 140, Straight 50],
      touch_reads = 1, side_reads = 2, ambient_reads = 0, color_reads = 0\<rparr>"
    by (simp add: world_defs sample_defs)
  from all have "turn_angles (issued ?s (wall_following ?c wall_receding ?s)) =
     [(WALL_FOLLOW_MIN_DISTANCE ?c - side_feed wall_receding (Suc (side_reads ?s))) *
      WALL_FOLLOW_ADJUST_ANGLE ?c]"
    by blast
  then have away: "turn_angles (issued ?s (wall_following ?c wall_receding ?s)) = [- 100]"
    by (simp add: world_defs sample_defs)
  have "side_feed wall_nearer (Suc (side_reads ?s)) < side_feed wall_receding (Suc (side_reads ?s))"
    by (simp add: world_defs sample_defs)
  with all side(7) have order:
    "hd (turn_angles (issued ?s (wall_following ?c wall_receding ?s))) <
     hd (turn_angles (issued ?s (wall_following ?c wall_nearer ?s)))"
    by blast
  from side run away order show ?thesis by blast
qed

text \<open>
  C5 as stated puts no condition on the gain. With a gain of zero it fails: the readings
  80 and 100, both below the minimum distance of 150, give the same turn angle.
\<close>

theorem wall_following_flat_gain_counterexample:
  "\<not> touch_feed wall_nearer 0 \<and> side_feed wall_nearer 0 < WALL_FOLLOW_MIN_DISTANCE flat_constants \<and>
   \<not> touch_feed wall_near 0 \<and> side_feed wall_near 0 < WALL_FOLLOW_MIN_DISTANCE flat_constants \<and>
   side_feed wall_nearer 1 = 80 \<and> side_feed wall_near 1 = 100 \<and>
   100 < WALL_FOLLOW_MIN_DISTANCE flat_constants \<and>
   turn_angles (issued (in_state WALL_FOLLOWING)
     (wall_following flat_constants wall_nearer (in_state WALL_FOLLOWING))) = [0] \<and>
   turn_angles (issued (in_state WALL_FOLLOWING)
     (wall_following flat_constants wall_near (in_state WALL_FOLLOWING))) = [0] \<and>
   \<not> hd (turn_angles (issued (in_state WALL_FOLLOWING)
          (wall_following flat_constants wall_near (in_state WALL_FOLLOWING)))) <
     hd (turn_angles (issued (in_state WALL_FOLLOWING)
          (wall_following flat_constants wall_nearer (in_state WALL_FOLLOWING))))"
  by (simp add: wall_following_def detect_obstacle_def detect_wall_on_right_def device_defs
      issued_def Let_def world_defs sample_defs)

section \<open>Approaching the flame\<close>

text \<open>
  C6. When the first colour reading of \<open>approach_flame\<close> is the goal colour, the loop
  ends at once: the robot handed to \<open>extinguish\<close> has done nothing but that one reading, so
  no \<open>straight\<close> and no \<open>turn\<close> command precedes \<open>extinguish\<close> (nor follows it
  within \<open>approach_flame\<close>).
\<close>

theorem approach_flame_goal_at_once:
  fixes c :: "('n::linordered_idom) constants"
  assumes "color_feed w (color_reads s) = GOAL_COLOR c"
  shows
  "(let s1 = s\<lparr>trace := trace s @ [ColorRead (GOAL_COLOR c)],
               color_reads := Suc (color_reads s)\<rparr>
    in approach_loop c w s = Some s1 \<and>
       approach_flame c w s = Some (extinguish c s1) \<and>
       turn_angles (issued s s1) = [] \<and>
       straight_distances (issued s s1) = [] \<and>
       issued s (extinguish c s1) =
         [ColorRead (GOAL_COLOR c), Print ''Extinguishing fire...'',
          RunTime (FAN_SPEED c) (FAN_RUN_TIME c),
          Print ''Cooling down after extinguishing fire.'', LightOn GREEN])"
proof -
  have "approach_loop c w s =
          Some (s\<lparr>trace := trace s @ [ColorRead (GOAL_COLOR c)],
                  color_reads := Suc (color_reads s)\<rparr>)"
    using assms by (subst approach_loop.simps) (simp add: detect_goal_def device_defs Let_def)
  then show ?thesis
    by (simp add: approach_flame_def extinguish_def emit_def issued_def Let_def)
qed

theorem approach_flame_goal_at_once_witness:
  "color_feed on_goal (color_reads (in_state FIRE_DETECTION)) = GOAL_COLOR sample_constants \<and>
   approach_flame sample_constants on_goal (in_state FIRE_DETECTION) =
     Some \<lparr>current_state = COMPLETE,
           trace = [UseGyro True, ColorRead RED, Print ''Extinguishing fire...'',
                    RunTime 1000 5000, Print ''Cooling down after extinguishing fire.'',
                    LightOn GREEN],
           touch_reads = 0, side_reads = 0, ambient_reads = 0, color_reads = 1\<rparr>"
proof -
  have goal: "color_feed on_goal (color_reads (in_state FIRE_DETECTION)) = GOAL_COLOR sample_constants"
    by (simp add: world_defs sample_defs)
  from approach_flame_goal_at_once [OF goal] show ?thesis
    by (simp add: Let_def) (simp add: world_defs sample_defs state_defs extinguish_def emit_def Let_def)
qed

section \<open>Who writes the state\<close>

lemma emit_state: "current_state (emit e s) = current_state s"
  by (simp add: emit_def)

lemma touched_state: "current_state (snd (touched w s)) = current_state s"
  by (simp add: touched_def emit_def Let_def)

lemma distance_state: "current_state (snd (distance w s)) = current_state s"
  by (simp add: distance_def emit_def Let_def)

lemma detect_obstacle_state: "current_state (snd (detect_obstacle w s)) = current_state s"
  by (simp add: detect_obstacle_def touched_def emit_def Let_def)

lemma detect_wall_on_right_state:
  "current_state (snd (detect_wall_on_right c w s)) = current_state s"
  by (simp add: detect_wall_on_right_def distance_def emit_def Let_def)

lemma detect_flame_state: "current_state (snd (detect_flame c w s)) = current_state s"
  by (simp add: detect_flame_def ambient_def emit_def Let_def)

lemma detect_goal_state: "current_state (snd (detect_goal c w s)) = current_state s"
  by (simp add: detect_goal_def color_def emit_def Let_def)

lemma transition_to_state: "current_state (transition_to st s) = st"
  by (simp add: transition_to_def emit_def)

lemma extinguish_state: "current_state (extinguish c s) = COMPLETE"
  by (simp add: extinguish_def emit_def Let_def)

lemma scan_loop_state: "current_state (snd (scan_loop c w n s)) = current_state s"
proof (induction n arbitrary: s)
  case 0
  show ?case by simp
next
  case (Suc n)
  show ?case
  proof (cases "fst (detect_flame c w s)")
    case True
    then show ?thesis
      by (simp add: split_beta emit_state detect_flame_state)
  next
    case False
    then show ?thesis
      by (simp add: split_beta Suc.IH emit_state detect_flame_state)
  qed
qed

lemma initial_scan_for_flame_state:
  "current_state (snd (initial_scan_for_flame c w s)) = current_state s"
  by (simp add: initial_scan_for_flame_def scan_loop_state)

lemma wall_following_state: "current_state (wall_following c w s) = current_state s"
  by (simp add: wall_following_def detect_obstacle_def detect_wall_on_right_def device_defs
      Let_def)

lemma wander_shape:
  "wander c w s =
     (if fst (detect_obstacle w s) then
        transition_to WALL_FOLLOWING
          (emit (Turn (- 90)) (emit (Straight (- WALL_FOLLOW_STEP c)) (snd (detect_obstacle w s))))
      else emit (Straight (WANDER_DISTANCE c)) (snd (detect_obstacle w s)))"
  by (simp add: wander_def split_beta)

lemma approach_loop_state:
  assumes "approach_loop c w s = Some s'"
  shows "current_state s' = current_state s"
  using assms
proof (induction c w s s' rule: approach_loop.raw_induct [rotated 1, consumes 1])
  case (1 loop c w s s')
  note IH = "1"(1) and body = "1"(2)
  show ?case
  proof (cases "fst (detect_goal c w s)")
    case True
    with body have "s' = snd (detect_goal c w s)"
      by (simp add: split_beta)
    then show ?thesis by (simp add: detect_goal_state)
  next
    case False
    let ?s2 = "snd (touched w (snd (detect_goal c w s)))"
    have s2: "current_state ?s2 = current_state s"
      by (simp add: touched_state detect_goal_state)
    show ?thesis
    proof (cases "fst (touched w (snd (detect_goal c w s)))")
      case True
      with False body
      have "loop c w (emit (Turn (- 90)) (emit (Straight (- WALL_FOLLOW_STEP c)) ?s2)) = Some s'"
        by (simp add: split_beta)
      from IH [OF this] show ?thesis by (simp add: emit_state s2)
    next
      case no_hit: False
      with False body
      have "loop c w (emit (Straight (APPROACH_FLAME_STEP_DISTANCE c)) ?s2) = Some s'"
        by (simp add: split_beta)
      from IH [OF this] show ?thesis by (simp add: emit_state s2)
    qed
  qed
qed

section \<open>The transition table of the dispatch step\<close>

lemma wander_state:
  "current_state (wander c w s) = current_state s \<or> current_state (wander c w s) = WALL_FOLLOWING"
  by (simp add: wander_shape transition_to_state emit_state detect_obstacle_state)

lemma approach_flame_state:
  "approach_flame c w s = Some s' \<Longrightarrow> current_state s' = COMPLETE"
  by (auto simp: approach_flame_def extinguish_state)

lemma update_table:
  assumes "update c w s = Some s'"
  shows "(current_state s = WANDER \<longrightarrow>
            current_state s' = WANDER \<or> current_state s' = WALL_FOLLOWING \<or>
            current_state s' = FIRE_DETECTION) \<and>
         (current_state s = WALL_FOLLOWING \<longrightarrow>
            current_state s' = WALL_FOLLOWING \<or> current_state s' = FIRE_DETECTION) \<and>
         (current_state s = FIRE_DETECTION \<longrightarrow> current_state s' = EXTINGUISH) \<and>
         (current_state s = EXTINGUISH \<longrightarrow> current_state s' = WANDER) \<and>
         (current_state s \<notin> {WANDER, WALL_FOLLOWING, FIRE_DETECTION, EXTINGUISH} \<longrightarrow>
            current_state s' = current_state s)"
proof -
  let ?s0 = "emit (PrintWith ''Current State: '' (current_state s)) s"
  have wander_case: "current_state s' = WANDER \<or> current_state s' = WALL_FOLLOWING \<or>
      current_state s' = FIRE_DETECTION" if "current_state s = WANDER"
  proof (cases "fst (initial_scan_for_flame c w ?s0)")
    case True
    with assms that have "s' = transition_to FIRE_DETECTION (snd (initial_scan_for_flame c w ?s0))"
      by (simp add: update_def Let_def split_beta emit_state)
    then show ?thesis by (simp add: transition_to_state)
  next
    case False
    let ?s1 = "emit (Print ''No flame detected during initial scan. Wandering...'')
                 (snd (initial_scan_for_flame c w ?s0))"
    from False assms that have "s' = wander c w ?s1"
      by (simp add: update_def Let_def split_beta emit_state)
    moreover have "current_state ?s1 = WANDER"
      using that by (simp add: emit_state initial_scan_for_flame_state)
    ultimately show ?thesis using wander_state [of c w ?s1] by auto
  qed
  have wall_case: "current_state s' = WALL_FOLLOWING \<or> current_state s' = FIRE_DETECTION"
    if "current_state s = WALL_FOLLOWING"
  proof (cases "fst (detect_goal c w (wall_following c w ?s0))")
    case True
    with assms that have "s' = transition_to FIRE_DETECTION (snd (detect_goal c w (wall_following c w ?s0)))"
      by (simp add: update_def Let_def split_beta emit_state state_defs)
    then show ?thesis by (simp add: transition_to_state)
  next
    case False
    with assms that have "s' = snd (detect_goal c w (wall_following c w ?s0))"
      by (simp add: update_def Let_def split_beta emit_state state_defs)
    with that show ?thesis
      by (simp add: detect_goal_state wall_following_state emit_state)
  qed
  have fire_case: "current_state s' = EXTINGUISH" if "current_state s = FIRE_DETECTION"
    using assms that
    by (auto simp: update_def Let_def emit_state state_defs transition_to_state)
  have ext_case: "current_state s' = WANDER" if "current_state s = EXTINGUISH"
    using assms that
    by (auto simp: update_def Let_def emit_state state_defs transition_to_state)
  have other_case: "current_state s' = current_state s"
    if "current_state s \<notin> {WANDER, WALL_FOLLOWING, FIRE_DETECTION, EXTINGUISH}"
    using assms that
    by (auto simp: update_def Let_def emit_state)
  from wander_case wall_case fire_case ext_case other_case show ?thesis by blast
qed

lemma run_live:
  "run c w n s = Some s' \<Longrightarrow> current_state s \<in> live_states \<Longrightarrow> current_state s' \<in> live_states"
proof (induction n arbitrary: s)
  case 0
  then show ?case by simp
next
  case (Suc n)
  from Suc.prems(1) obtain s1 where step: "update c w s = Some s1" and rest: "run c w n s1 = Some s'"
    by (auto split: option.splits)
  from update_table [OF step] Suc.prems(2) have "current_state s1 \<in> live_states"
    by (auto simp: live_states_def)
  with Suc.IH [OF rest] show ?case .
qed




















section \<open>The state is written by transition_to and extinguish only\<close>

lemma update_writes:
  fixes c :: "('n::linordered_idom) constants"
  assumes "update c w s = Some s'"
  shows "current_state s' = current_state s \<or> (\<exists>st s1. s' = transition_to st s1)"
proof -
  let ?s0 = "emit (PrintWith ''Current State: '' (current_state s)) s"
  consider (wander) "current_state s = WANDER"
    | (wall) "current_state s = WALL_FOLLOWING"
    | (fire) "current_state s = FIRE_DETECTION"
    | (ext) "current_state s = EXTINGUISH"
    | (other) "current_state s \<notin> {WANDER, WALL_FOLLOWING, FIRE_DETECTION, EXTINGUISH}"
    by blast
  then show ?thesis
  proof cases
    case wander
    show ?thesis
    proof (cases "fst (initial_scan_for_flame c w ?s0)")
      case True
      with assms wander
      have "s' = transition_to FIRE_DETECTION (snd (initial_scan_for_flame c w ?s0))"
        by (simp add: update_def Let_def split_beta emit_state)
      then show ?thesis by blast
    next
      case False
      let ?s1 = "emit (Print ''No flame detected during initial scan. Wandering...'')
                   (snd (initial_scan_for_flame c w ?s0))"
      have s1: "current_state ?s1 = current_state s"
        by (simp add: emit_state initial_scan_for_flame_state)
      from False assms wander have s': "s' = wander c w ?s1"
        by (simp add: update_def Let_def split_beta emit_state)
      show ?thesis
      proof (cases "fst (detect_obstacle w ?s1)")
        case True
        with s' show ?thesis unfolding wander_shape by auto
      next
        case False
        with s' have "current_state s' = current_state ?s1"
          unfolding wander_shape by (simp add: emit_state detect_obstacle_state)
        with s1 show ?thesis by simp
      qed
    qed
  next
    case wall
    show ?thesis
    proof (cases "fst (detect_goal c w (wall_following c w ?s0))")
      case True
      with assms wall
      have "s' = transition_to FIRE_DETECTION (snd (detect_goal c w (wall_following c w ?s0)))"
        by (simp add: update_def Let_def split_beta emit_state state_defs)
      then show ?thesis by blast
    next
      case False
      with assms wall have "s' = snd (detect_goal c w (wall_following c w ?s0))"
        by (simp add: update_def Let_def split_beta emit_state state_defs)
      then show ?thesis
        by (simp add: detect_goal_state wall_following_state emit_state)
    qed
  next
    case fire
    with assms show ?thesis
      by (auto simp: update_def Let_def emit_state state_defs)
  next
    case ext
    with assms show ?thesis
      by (auto simp: update_def Let_def emit_state state_defs)
  next
    case other
    with assms show ?thesis
      by (auto simp: update_def Let_def emit_state)
  qed
qed

text \<open>
  C8. None of the four detection predicates changes \<open>current_state\<close>, whatever the sensors
  read (\<open>detect_obstacle\<close> may issue \<open>stop\<close>, which is a log entry, not a state change).
  Neither do the scan, \<open>fire_detection\<close>, \<open>wall_following\<close> and \<open>raise_alarm\<close>. \<open>wander\<close>
  changes it through \<open>transition_to\<close> or not at all, \<open>approach_flame\<close> through its final
  \<open>extinguish\<close> only, and a step that returns either leaves it as it was or ends with
  \<open>transition_to\<close>. \<open>extinguish\<close> writes \<open>COMPLETE\<close> directly.
\<close>

theorem detection_leaves_current_state:
  fixes c :: "('n::linordered_idom) constants"
  shows
  "current_state (snd (detect_obstacle w s)) = current_state s \<and>
   current_state (snd (detect_wall_on_right c w s)) = current_state s \<and>
   current_state (snd (detect_flame c w s)) = current_state s \<and>
   current_state (snd (detect_goal c w s)) = current_state s \<and>
   current_state (snd (initial_scan_for_flame c w s)) = current_state s \<and>
   current_state (fire_detection c w s) = current_state s \<and>
   current_state (wall_following c w s) = current_state s \<and>
   current_state (raise_alarm c s) = current_state s \<and>
   (\<exists>s1. current_state s1 = current_state s \<and>
         (wander c w s = s1 \<or> wander c w s = transition_to WALL_FOLLOWING s1)) \<and>
   (approach_flame c w s = None \<or>
    (\<exists>s1. current_state s1 = current_state s \<and>
          approach_flame c w s = Some (extinguish c s1))) \<and>
   (update c w s = None \<or>
    (\<exists>s'. update c w s = Some s' \<and>
          (current_state s' = current_state s \<or> (\<exists>st s1. s' = transition_to st s1)))) \<and>
   current_state (extinguish c s) = COMPLETE \<and>
   current_state (transition_to st s) = st"
proof -
  have wander_part:
    "\<exists>s1. current_state s1 = current_state s \<and>
          (wander c w s = s1 \<or> wander c w s = transition_to WALL_FOLLOWING s1)"
  proof (cases "fst (detect_obstacle w s)")
    case True
    let ?s1 = "emit (Turn (- 90)) (emit (Straight (- WALL_FOLLOW_STEP c)) (snd (detect_obstacle w s)))"
    have "current_state ?s1 = current_state s"
      by (simp add: emit_state detect_obstacle_state)
    moreover from True have "wander c w s = transition_to WALL_FOLLOWING ?s1"
      by (simp add: wander_shape)
    ultimately show ?thesis by blast
  next
    case False
    then have "current_state (wander c w s) = current_state s"
      by (simp add: wander_shape emit_state detect_obstacle_state)
    then show ?thesis by blast
  qed
  have approach_part:
    "approach_flame c w s = None \<or>
     (\<exists>s1. current_state s1 = current_state s \<and> approach_flame c w s = Some (extinguish c s1))"
  proof (cases "approach_loop c w s")
    case None
    then show ?thesis by (simp add: approach_flame_def)
  next
    case (Some s1)
    from approach_loop_state [OF Some] Some show ?thesis
      by (auto simp: approach_flame_def)
  qed
  have update_part:
    "update c w s = None \<or>
     (\<exists>s'. update c w s = Some s' \<and>
          (current_state s' = current_state s \<or> (\<exists>st s1. s' = transition_to st s1)))"
  proof (cases "update c w s")
    case None
    then show ?thesis by simp
  next
    case (Some s')
    from update_writes [OF Some] Some show ?thesis by simp
  qed
  have raise_part: "current_state (raise_alarm c s) = current_state s"
    by (simp add: raise_alarm_def emit_state)
  have fire_part: "current_state (fire_detection c w s) = current_state s"
    by (simp add: fire_detection_def initial_scan_for_flame_state)
  from wander_part approach_part update_part raise_part fire_part show ?thesis
    by (simp add: detect_obstacle_state detect_wall_on_right_state detect_flame_state
        detect_goal_state initial_scan_for_flame_state wall_following_state extinguish_state
        transition_to_state)
qed

theorem detection_leaves_current_state_witness:
  "snd (detect_obstacle wall_ahead (in_state WALL_FOLLOWING)) =
     \<lparr>current_state = WALL_FOLLOWING, trace = [UseGyro True, Touched True, Stop],
      touch_reads = 1, side_reads = 0, ambient_reads = 0, color_reads = 0\<rparr> \<and>
   current_state (snd (detect_obstacle wall_ahead (in_state WALL_FOLLOWING))) = WALL_FOLLOWING \<and>
   current_state (snd (detect_wall_on_right sample_constants wall_ahead (in_state WALL_FOLLOWING))) =
     WALL_FOLLOWING \<and>
   current_state (snd (detect_flame sample_constants wall_ahead (in_state WALL_FOLLOWING))) =
     WALL_FOLLOWING \<and>
   current_state (snd (detect_goal sample_constants wall_ahead (in_state WALL_FOLLOWING))) =
     WALL_FOLLOWING"
proof -
  have "snd (detect_obstacle wall_ahead (in_state WALL_FOLLOWING)) =
     \<lparr>current_state = WALL_FOLLOWING, trace = [UseGyro True, Touched True, Stop],
      touch_reads = 1, side_reads = 0, ambient_reads = 0, color_reads = 0\<rparr>"
    by (simp add: detect_defs device_defs Let_def world_defs sample_defs)
  moreover have "current_state (in_state WALL_FOLLOWING) = WALL_FOLLOWING"
    by (simp add: sample_defs)
  ultimately show ?thesis
    using detection_leaves_current_state
      [of wall_ahead "in_state WALL_FOLLOWING" sample_constants]
    by simp
qed

section \<open>COMPLETE does not survive a step\<close>

text \<open>
  C9. From a robot in state \<open>WANDER\<close> (the initial robot is one), after any number of
  steps that all return the state is \<open>WANDER\<close>, \<open>WALL_FOLLOWING\<close>, \<open>FIRE_DETECTION\<close> or
  \<open>EXTINGUISH\<close>, never \<open>COMPLETE\<close>. In the two branches that run \<open>extinguish\<close> the state is
  \<open>COMPLETE\<close> when \<open>extinguish\<close> is done, and the \<open>transition_to\<close> that follows
  overwrites it: with \<open>EXTINGUISH\<close> after \<open>approach_flame\<close>, with \<open>WANDER\<close> in the branch of
  \<open>EXTINGUISH\<close>.
\<close>

theorem run_never_complete:
  fixes c :: "('n::linordered_idom) constants"
  assumes "current_state s0 = WANDER" and "run c w n s0 = Some s"
  shows
  "current_state s \<in> live_states \<and> current_state s \<noteq> COMPLETE \<and>
   (\<forall>t t1. current_state t = FIRE_DETECTION \<and>
       approach_flame c w (emit (PrintWith ''Current State: '' FIRE_DETECTION) t) = Some t1 \<longrightarrow>
       current_state t1 = COMPLETE \<and>
       update c w t = Some (transition_to EXTINGUISH t1) \<and>
       current_state (transition_to EXTINGUISH t1) = EXTINGUISH) \<and>
   (\<forall>t. current_state t = EXTINGUISH \<longrightarrow>
       current_state (extinguish c (emit (PrintWith ''Current State: '' EXTINGUISH) t)) = COMPLETE \<and>
       update c w t =
         Some (transition_to WANDER
           (emit (Print ''Cooldown period before returning to wander.'')
             (extinguish c (emit (PrintWith ''Current State: '' EXTINGUISH) t)))) \<and>
       current_state (transition_to WANDER
           (emit (Print ''Cooldown period before returning to wander.'')
             (extinguish c (emit (PrintWith ''Current State: '' EXTINGUISH) t)))) = WANDER)"
proof -
  from assms(1) have "current_state s0 \<in> live_states"
    by (simp add: live_states_def)
  from run_live [OF assms(2) this] have live: "current_state s \<in> live_states" .
  then have "current_state s \<noteq> COMPLETE"
    by (auto simp: live_states_def state_defs)
  moreover have "\<forall>t t1. current_state t = FIRE_DETECTION \<and>
       approach_flame c w (emit (PrintWith ''Current State: '' FIRE_DETECTION) t) = Some t1 \<longrightarrow>
       current_state t1 = COMPLETE \<and>
       update c w t = Some (transition_to EXTINGUISH t1) \<and>
       current_state (transition_to EXTINGUISH t1) = EXTINGUISH"
    by (auto simp: update_def Let_def emit_state state_defs transition_to_state
        dest: approach_flame_state)
  moreover have "\<forall>t. current_state t = EXTINGUISH \<longrightarrow>
       current_state (extinguish c (emit (PrintWith ''Current State: '' EXTINGUISH) t)) = COMPLETE \<and>
       update c w t =
         Some (transition_to WANDER
           (emit (Print ''Cooldown period before returning to wander.'')
             (extinguish c (emit (PrintWith ''Current State: '' EXTINGUISH) t)))) \<and>
       current_state (transition_to WANDER
           (emit (Print ''Cooldown period before returning to wander.'')
             (extinguish c (emit (PrintWith ''Current State: '' EXTINGUISH) t)))) = WANDER"
    by (simp add: update_def Let_def emit_state state_defs transition_to_state extinguish_state)
  ultimately show ?thesis using live by blast
qed

theorem run_never_complete_witness:
  "current_state (init :: int robot) = WANDER \<and>
   run sample_constants fire_behind_wall 3 init =
     Some \<lparr>current_state = WANDER,
       trace =
         [UseGyro True, PrintWith ''Current State: '' 1, Ambient 10, Turn 45,
          Ambient 10, Turn 45, Ambient 90,
          Print ''Flame detected during initial scan'',
          PrintWith ''Transitioning to '' 3, PrintWith ''Current State: '' 3,
          ColorRead WHITE, Touched False, Straight 30, ColorRead WHITE,
          Touched True, Straight (- 50), Turn (- 90), ColorRead WHITE,
          Touched False, Straight 30, ColorRead RED,
          Print ''Extinguishing fire...'', RunTime 1000 5000,
          Print ''Cooling down after extinguishing fire.'', LightOn GREEN,
          PrintWith ''Transitioning to '' 4, PrintWith ''Current State: '' 4,
          Print ''Extinguishing fire...'', RunTime 1000 5000,
          Print ''Cooling down after extinguishing fire.'', LightOn GREEN,
          Print ''Cooldown period before returning to wander.'',
          PrintWith ''Transitioning to '' 1],
       touch_reads = 3, side_reads = 0, ambient_reads = 3, color_reads = 4\<rparr> \<and>
   WANDER \<in> live_states \<and> WANDER \<noteq> COMPLETE"
proof -
  let ?end = "\<lparr>current_state = WANDER,
       trace =
         [UseGyro True, PrintWith ''Current State: '' 1, Ambient 10, Turn 45,
          Ambient 10, Turn 45, Ambient 90,
          Print ''Flame detected during initial scan'',
          PrintWith ''Transitioning to '' 3, PrintWith ''Current State: '' 3,
          ColorRead WHITE, Touched False, Straight 30, ColorRead WHITE,
          Touched True, Straight (- 50), Turn (- 90), ColorRead WHITE,
          Touched False, Straight 30, ColorRead RED,
          Print ''Extinguishing fire...'', RunTime 1000 5000,
          Print ''Cooling down after extinguishing fire.'', LightOn GREEN,
          PrintWith ''Transitioning to '' 4, PrintWith ''Current State: '' 4,
          Print ''Extinguishing fire...'', RunTime 1000 5000,
          Print ''Cooling down after extinguishing fire.'', LightOn GREEN,
          Print ''Cooldown period before returning to wander.'',
          PrintWith ''Transitioning to '' 1],
       touch_reads = 3, side_reads = 0, ambient_reads = 3, color_reads = 4\<rparr> :: int robot"
  have start: "current_state (init :: int robot) = WANDER"
    by (simp add: init_def)
  have three: "run sample_constants fire_behind_wall 3 init = Some ?end"
    by (simp add: eval_nat_numeral update_def initial_scan_for_flame_def approach_flame_def
        approach_loop.simps extinguish_def transition_to_def detect_defs device_defs Let_def
        world_defs sample_defs state_defs)
  from run_never_complete [OF start three]
  have "current_state ?end \<in> live_states \<and> current_state ?end \<noteq> COMPLETE"
    by blast
  then have "WANDER \<in> live_states \<and> WANDER \<noteq> COMPLETE" by simp
  with start three show ?thesis by simp
qed

end
